theory Spec2Isabelle
  imports Main
begin

section \<open>Python values and the standard-library functions the server calls\<close>

text \<open>
  The relay server \<^verbatim>\<open>server.py\<close> is a single Python module. Its own functions
  (\<^verbatim>\<open>load_tokens\<close>, \<^verbatim>\<open>ws_handler\<close>, \<^verbatim>\<open>on_redemption\<close>, \<^verbatim>\<open>on_cheer\<close>, \<^verbatim>\<open>main\<close>)
  are embedded below. The few library functions they call (\<^verbatim>\<open>str.strip\<close>,
  \<^verbatim>\<open>str.lower\<close>, \<^verbatim>\<open>os.getenv\<close>, \<^verbatim>\<open>json.dumps\<close>, \<^verbatim>\<open>set.remove\<close>) are modelled from
  their documented behaviour. A Python \<^verbatim>\<open>str\<close> is a \<^typ>\<open>string\<close>, each \<^typ>\<open>char\<close> standing
  for the code point of the same number, so the model covers the strings whose code
  points are below 256. Floating-point numbers are left out of the values: the server
  builds none, and \<^verbatim>\<open>load_tokens\<close> treats every value alike.
\<close>

datatype pyobj =
    PyNone
  | PyBool bool
  | PyInt int
  | PyStr string
  | PyList "pyobj list"
  | PyDict "(string \<times> pyobj) list"

text \<open>Python's truth test, as \<^verbatim>\<open>if x\<close>, \<^verbatim>\<open>not x\<close> and \<^verbatim>\<open>x or y\<close> apply it.\<close>

fun truthy :: "pyobj \<Rightarrow> bool" where
  "truthy PyNone = False"
| "truthy (PyBool b) = b"
| "truthy (PyInt i) = (i \<noteq> 0)"
| "truthy (PyStr s) = (s \<noteq> [])"
| "truthy (PyList xs) = (xs \<noteq> [])"
| "truthy (PyDict kvs) = (kvs \<noteq> [])"

datatype error =
    KeyError
  | OSError
  | JSONDecodeError
  | AttributeError
  | MissingTwitchConfiguration
  | TwitchUserNotFound string

subsection \<open>\<^verbatim>\<open>str.strip()\<close> and \<^verbatim>\<open>str.lower()\<close>\<close>

text \<open>
  The code points below 256 that \<^verbatim>\<open>str.isspace\<close> accepts: tab to carriage return,
  the four separators 0x1C to 0x1F, the space, NEL (0x85) and the no-break space (0xA0).
\<close>

definition is_space :: "char \<Rightarrow> bool" where
  "is_space c =
     (let n = (of_char c :: nat)
      in (9 \<le> n \<and> n \<le> 13) \<or> (28 \<le> n \<and> n \<le> 32) \<or> n = 133 \<or> n = 160)"

definition py_strip :: "string \<Rightarrow> string" where
  "py_strip s = rev (dropWhile is_space (rev (dropWhile is_space s)))"

text \<open>
  Below 256 the upper-case letters are A to Z and 0xC0 to 0xDE without the
  multiplication sign 0xD7; each has its lower-case letter 32 places further.
\<close>

definition is_upper :: "char \<Rightarrow> bool" where
  "is_upper c =
     (let n = (of_char c :: nat)
      in (65 \<le> n \<and> n \<le> 90) \<or> (192 \<le> n \<and> n \<le> 222 \<and> n \<noteq> 215))"

definition lower_char :: "char \<Rightarrow> char" where
  "lower_char c = (if is_upper c then char_of ((of_char c :: nat) + 32) else c)"

definition py_lower :: "string \<Rightarrow> string" where
  "py_lower s = map lower_char s"

subsection \<open>\<^verbatim>\<open>os.getenv\<close>\<close>

type_synonym environ = "string \<rightharpoonup> string"

definition getenv :: "environ \<Rightarrow> string \<Rightarrow> string \<Rightarrow> string" where
  "getenv e name dflt = (case e name of None \<Rightarrow> dflt | Some v \<Rightarrow> v)"

subsection \<open>\<^verbatim>\<open>json.dumps\<close> with its default arguments\<close>

definition digit_char :: "nat \<Rightarrow> char" where
  "digit_char d = ''0123456789abcdef'' ! d"

function dec_nat :: "nat \<Rightarrow> string" where
  "dec_nat n = (if n < 10 then [digit_char n] else dec_nat (n div 10) @ [digit_char (n mod 10)])"
  by pat_completeness auto
termination
  by (relation "measure id") auto

declare dec_nat.simps [simp del]

definition repr_int :: "int \<Rightarrow> string" where
  "repr_int i = (if i < 0 then CHR ''-'' # dec_nat (nat (- i)) else dec_nat (nat i))"

text \<open>
  \<^verbatim>\<open>ensure_ascii=True\<close>: the quote and the backslash get a backslash, the five
  control characters their letter, every other character outside space to tilde its
  \<^verbatim>\<open>\uXXXX\<close> form.
\<close>

definition escape_char :: "char \<Rightarrow> string" where
  "escape_char c =
     (if c = CHR 0x22 then [CHR 0x5C, CHR 0x22]
      else if c = CHR 0x5C then [CHR 0x5C, CHR 0x5C]
      else if c = CHR 0x0A then [CHR 0x5C, CHR ''n'']
      else if c = CHR 0x0D then [CHR 0x5C, CHR ''r'']
      else if c = CHR 0x09 then [CHR 0x5C, CHR ''t'']
      else if c = CHR 0x08 then [CHR 0x5C, CHR ''b'']
      else if c = CHR 0x0C then [CHR 0x5C, CHR ''f'']
      else (let n = (of_char c :: nat)
            in if 32 \<le> n \<and> n \<le> 126 then [c]
               else [CHR 0x5C, CHR ''u'', CHR ''0'', CHR ''0'',
                     digit_char (n div 16), digit_char (n mod 16)]))"

definition json_string :: "string \<Rightarrow> string" where
  "json_string s = CHR 0x22 # concat (map escape_char s) @ [CHR 0x22]"

fun join :: "string \<Rightarrow> string list \<Rightarrow> string" where
  "join sep [] = []"
| "join sep [x] = x"
| "join sep (x # y # ys) = x @ sep @ join sep (y # ys)"

fun json_dumps :: "pyobj \<Rightarrow> string" where
  "json_dumps PyNone = ''null''"
| "json_dumps (PyBool b) = (if b then ''true'' else ''false'')"
| "json_dumps (PyInt i) = repr_int i"
| "json_dumps (PyStr s) = json_string s"
| "json_dumps (PyList xs) = ''['' @ join '', '' (map json_dumps xs) @ '']''"
| "json_dumps (PyDict kvs) =
     ''{'' @ join '', '' (map (\<lambda>(k, v). json_string k @ '': '' @ json_dumps v) kvs) @ ''}''"

subsection \<open>\<^verbatim>\<open>dict.get\<close>\<close>

text \<open>
  \<^verbatim>\<open>data.get(key)\<close>: the key's value, \<^verbatim>\<open>None\<close> for a missing key,
  \<^verbatim>\<open>AttributeError\<close> when \<^verbatim>\<open>data\<close> is not a dictionary (what \<^verbatim>\<open>json.load\<close> gives
  for a JSON text that is not an object). A dictionary is the list of its items, one
  per key.
\<close>

fun dict_get :: "pyobj \<Rightarrow> string \<Rightarrow> error + pyobj" where
  "dict_get (PyDict kvs) k = Inr (case map_of kvs k of None \<Rightarrow> PyNone | Some v \<Rightarrow> v)"
| "dict_get _ k = Inl AttributeError"

section \<open>Configuration flags\<close>

text \<open>
  \<^verbatim>\<open>BDS_DEBUG = os.getenv('BDS_DEBUG', '').strip().lower() in {'1', 'true', 'yes', 'on'}\<close>
  and the same expression for \<^verbatim>\<open>BDS_RELAY_ONLY\<close>.
\<close>

definition BDS_DEBUG :: "environ \<Rightarrow> bool" where
  "BDS_DEBUG e =
     (py_lower (py_strip (getenv e ''BDS_DEBUG'' '''')) \<in> {''1'', ''true'', ''yes'', ''on''})"

definition BDS_RELAY_ONLY :: "environ \<Rightarrow> bool" where
  "BDS_RELAY_ONLY e =
     (py_lower (py_strip (getenv e ''BDS_RELAY_ONLY'' '''')) \<in> {''1'', ''true'', ''yes'', ''on''})"

section \<open>Saved tokens\<close>

text \<open>
  What \<^verbatim>\<open>load_tokens\<close> finds at \<^verbatim>\<open>TOKEN_FILE\<close>: no file (\<^verbatim>\<open>os.path.exists\<close> is
  false), a file that \<^verbatim>\<open>open\<close> cannot read, a file whose text \<^verbatim>\<open>json.load\<close> rejects,
  or a file that \<^verbatim>\<open>json.load\<close> turns into a value.
\<close>

datatype token_file = Missing | Unreadable | Malformed | Loaded pyobj

text \<open>The body of the \<^verbatim>\<open>try\<close> block: open, \<^verbatim>\<open>json.load\<close>, the two \<^verbatim>\<open>data.get\<close>.\<close>

definition load_tokens_try :: "token_file \<Rightarrow> error + pyobj \<times> pyobj" where
  "load_tokens_try f =
     (case f of
        Missing \<Rightarrow> Inl OSError
      | Unreadable \<Rightarrow> Inl OSError
      | Malformed \<Rightarrow> Inl JSONDecodeError
      | Loaded data \<Rightarrow>
          (case dict_get data ''token'' of
             Inl e \<Rightarrow> Inl e
           | Inr t \<Rightarrow>
               (case dict_get data ''refresh_token'' of
                  Inl e \<Rightarrow> Inl e
                | Inr r \<Rightarrow> Inr (t, r))))"

definition load_tokens :: "token_file \<Rightarrow> error + pyobj \<times> pyobj" where
  "load_tokens f =
     (if f = Missing then Inr (PyNone, PyNone)
      else (case load_tokens_try f of
              Inl e \<Rightarrow> Inr (PyNone, PyNone)
            | Inr r \<Rightarrow> Inr r))"

section \<open>The registry of overlay connections\<close>

text \<open>
  What the server prints is kept as a list of lines, one constructor for each
  \<^verbatim>\<open>print\<close> of the module, holding the values its f-string shows.
\<close>

datatype log_line =
    OverlayConnected nat
  | OverlayDisconnected nat
  | RedemptionReceived string string
  | CheerReceived int string
  | StartingRelay int
  | ServingOverlay
  | RelayOnlyEnabled
  | Stopping
  | ConnectingToTwitch
  | UsingSavedTokens
  | SavedTokensFailed
  | OpeningBrowser
  | AuthenticationSuccessful
  | ListeningForEvents string string
  | EventSubConnected

text \<open>
  The state the handlers share: the module-level set \<^verbatim>\<open>connected_clients\<close>, the
  lines printed, the arguments of the \<^verbatim>\<open>json.dumps\<close> calls made, and for each
  connection the messages whose \<^verbatim>\<open>send\<close> has completed, oldest first. A connection
  is a value of the type \<open>'c\<close>, one per websocket object.
\<close>

record 'c world =
  connected_clients :: "'c set"
  stdout :: "log_line list"
  dumped :: "pyobj list"
  received :: "'c \<Rightarrow> string list"

text \<open>\<^verbatim>\<open>set.remove\<close> raises \<^verbatim>\<open>KeyError\<close> for an element that is not in the set.\<close>

definition set_remove :: "'c \<Rightarrow> 'c set \<Rightarrow> error + 'c set" where
  "set_remove x s = (if x \<in> s then Inr (s - {x}) else Inl KeyError)"

text \<open>
  \<^verbatim>\<open>ws_handler\<close> suspends at \<^verbatim>\<open>await websocket.wait_closed()\<close>, where other handlers
  run. Its two halves are the code before the \<^verbatim>\<open>await\<close> and the \<^verbatim>\<open>finally\<close> block;
  each returns the world it leaves and the exception it raises, if any.
\<close>

definition ws_handler_enter :: "'c \<Rightarrow> 'c world \<Rightarrow> 'c world" where
  "ws_handler_enter websocket w =
     (let clients = insert websocket (connected_clients w)
      in w\<lparr>connected_clients := clients,
           stdout := stdout w @ [OverlayConnected (card clients)]\<rparr>)"

definition ws_handler_finally :: "'c \<Rightarrow> 'c world \<Rightarrow> 'c world \<times> error option" where
  "ws_handler_finally websocket w =
     (case set_remove websocket (connected_clients w) of
        Inl e \<Rightarrow> (w, Some e)
      | Inr clients \<Rightarrow>
          (w\<lparr>connected_clients := clients,
             stdout := stdout w @ [OverlayDisconnected (card clients)]\<rparr>, None))"


section \<open>The event callbacks\<close>

record redemption =
  reward_title :: string
  user_name :: string

record cheer =
  bits :: int
  cheer_user_name :: "string option"

text \<open>
  \<^verbatim>\<open>tasks = [asyncio.create_task(client.send(payload)) for client in connected_clients]\<close>
  followed by \<^verbatim>\<open>await asyncio.wait(tasks)\<close>: one task for each registered connection;
  \<^verbatim>\<open>asyncio.wait\<close> returns when all of them are done and raises nothing for a task
  that ended with an exception. \<open>failing\<close> is the set of connections whose \<^verbatim>\<open>send\<close>
  raises.
\<close>

definition send_tasks :: "'c set \<Rightarrow> string \<Rightarrow> 'c world \<Rightarrow> 'c world" where
  "send_tasks failing payload w =
     w\<lparr>received := (\<lambda>client.
          if client \<in> connected_clients w \<and> client \<notin> failing
          then received w client @ [payload] else received w client)\<rparr>"

definition redemption_payload :: "redemption \<Rightarrow> pyobj" where
  "redemption_payload ev =
     PyDict [(''reward'', PyStr (reward_title ev)), (''user'', PyStr (user_name ev))]"

definition on_redemption :: "'c set \<Rightarrow> redemption \<Rightarrow> 'c world \<Rightarrow> 'c world" where
  "on_redemption failing ev w =
     (let w1 = w\<lparr>stdout := stdout w @ [RedemptionReceived (reward_title ev) (user_name ev)]\<rparr>
      in if connected_clients w1 \<noteq> {}
         then send_tasks failing (json_dumps (redemption_payload ev))
                (w1\<lparr>dumped := dumped w1 @ [redemption_payload ev]\<rparr>)
         else w1)"

text \<open>\<^verbatim>\<open>data.event.user_name or "Anonymous"\<close>: \<^verbatim>\<open>None\<close> and the empty string are both false.\<close>

definition name_or_anonymous :: "string option \<Rightarrow> string" where
  "name_or_anonymous u =
     (case u of None \<Rightarrow> ''Anonymous'' | Some s \<Rightarrow> if s = [] then ''Anonymous'' else s)"

definition cheer_payload :: "cheer \<Rightarrow> pyobj" where
  "cheer_payload ev =
     (let user_name = name_or_anonymous (cheer_user_name ev);
          beans_count = bits ev * 2;
          show_text = (bits ev \<ge> 100)
      in PyDict [(''type'', PyStr ''cheer''), (''user'', PyStr user_name),
                 (''beans'', PyInt beans_count), (''showText'', PyBool show_text)])"

definition on_cheer :: "'c set \<Rightarrow> cheer \<Rightarrow> 'c world \<Rightarrow> 'c world" where
  "on_cheer failing ev w =
     (let w1 = w\<lparr>stdout := stdout w @ [CheerReceived (bits ev) (name_or_anonymous (cheer_user_name ev))]\<rparr>
      in if connected_clients w1 \<noteq> {}
         then send_tasks failing (json_dumps (cheer_payload ev))
                (w1\<lparr>dumped := dumped w1 @ [cheer_payload ev]\<rparr>)
         else w1)"

section \<open>Startup and shutdown\<close>

text \<open>
  The module-level settings \<^verbatim>\<open>main\<close> reads, each \<^verbatim>\<open>os.getenv(name, '')\<close>.
  \<^verbatim>\<open>LOCAL_WS_PORT\<close> is \<^verbatim>\<open>int(os.getenv('LOCAL_WS_PORT', '8765'))\<close>; \<^verbatim>\<open>main\<close> takes
  the resulting number as an argument.
\<close>

definition APP_ID :: "environ \<Rightarrow> string" where
  "APP_ID e = getenv e ''TWITCH_APP_ID'' ''''"

definition APP_SECRET :: "environ \<Rightarrow> string" where
  "APP_SECRET e = getenv e ''TWITCH_APP_SECRET'' ''''"

definition TARGET_CHANNEL :: "environ \<Rightarrow> string" where
  "TARGET_CHANNEL e = getenv e ''TWITCH_TARGET_CHANNEL'' ''''"

text \<open>
  What \<^verbatim>\<open>main\<close> does to the outside, in the order it does it: the listeners it
  binds and closes, the calls to the Twitch client, the token file, the wait.
\<close>

datatype action =
    Print log_line
  | WebsocketsServe int
  | RunnerSetup
  | SiteStart int
  | AwaitFuture
  | WsServerClose
  | RunnerCleanup
  | TwitchCreate string string
  | LoadTokens
  | SetUserAuthentication pyobj pyobj
  | Authenticate
  | SaveTokens pyobj pyobj
  | GetUsers string
  | EventSubStart
  | ListenRedemptions string
  | ListenCheers string
  | EventSubStop
  | TwitchClose

text \<open>The actions that bind a listening endpoint, and those that reach the Twitch client.\<close>

fun binds_listener :: "action \<Rightarrow> bool" where
  "binds_listener (WebsocketsServe port) = True"
| "binds_listener (SiteStart port) = True"
| "binds_listener _ = False"

fun upstream :: "action \<Rightarrow> bool" where
  "upstream (TwitchCreate app_id secret) = True"
| "upstream (SetUserAuthentication token refresh_token) = True"
| "upstream Authenticate = True"
| "upstream (GetUsers login) = True"
| "upstream EventSubStart = True"
| "upstream (ListenRedemptions user_id) = True"
| "upstream (ListenCheers user_id) = True"
| "upstream EventSubStop = True"
| "upstream TwitchClose = True"
| "upstream _ = False"

text \<open>
  What \<^verbatim>\<open>main\<close> meets outside the module: the token file, whether Twitch accepts the
  saved tokens (\<^verbatim>\<open>set_user_authentication\<close> raises otherwise), the pair that
  \<^verbatim>\<open>auth.authenticate()\<close> returns, the ids of the users that \<^verbatim>\<open>get_users\<close> yields,
  and whether the task waiting on \<^verbatim>\<open>asyncio.Future()\<close> is ever cancelled. The other
  library calls are taken to succeed.
\<close>

record outside =
  tokens_json :: token_file
  saved_tokens_accepted :: bool
  authenticated :: "pyobj \<times> pyobj"
  users :: "string list"
  cancelled :: bool

text \<open>
  How a run of \<^verbatim>\<open>main\<close> ends: it returns, it raises, or it stays suspended at
  \<^verbatim>\<open>await asyncio.Future()\<close> for ever.
\<close>

datatype ending = Returns | Raises error | Waits

text \<open>Step 1 of \<^verbatim>\<open>main\<close>: the websocket server and the HTTP site.\<close>

definition setup_servers :: "int \<Rightarrow> action list" where
  "setup_servers port =
     [Print (StartingRelay port), WebsocketsServe port, RunnerSetup, SiteStart 8080,
      Print ServingOverlay]"

text \<open>
  Step 3: the saved tokens are tried when both are true values; a failure there, or a
  token that is not a true value, leads to the browser flow. The result is the actions
  taken.
\<close>

definition authenticate_user :: "outside \<Rightarrow> pyobj \<Rightarrow> pyobj \<Rightarrow> action list" where
  "authenticate_user out token0 refresh_token0 =
     (let (acts1, token1) =
            (if truthy token0 \<and> truthy refresh_token0
             then (if saved_tokens_accepted out
                   then ([SetUserAuthentication token0 refresh_token0, Print UsingSavedTokens], token0)
                   else ([SetUserAuthentication token0 refresh_token0, Print SavedTokensFailed], PyNone))
             else ([], token0))
      in if \<not> truthy token1
         then (let (token2, refresh_token2) = authenticated out
               in acts1 @ [Print OpeningBrowser, Authenticate,
                           SetUserAuthentication token2 refresh_token2,
                           SaveTokens token2 refresh_token2, Print AuthenticationSuccessful])
         else acts1)"

text \<open>Steps 4 to 6 and the final wait, once the Twitch client is authenticated.\<close>

definition subscribe_and_wait :: "environ \<Rightarrow> outside \<Rightarrow> action list \<times> ending" where
  "subscribe_and_wait e out =
     (let user_id = (case users out of [] \<Rightarrow> None | u # us \<Rightarrow> Some u)
      in case user_id of
           None \<Rightarrow> ([GetUsers (TARGET_CHANNEL e)], Raises (TwitchUserNotFound (TARGET_CHANNEL e)))
         | Some uid \<Rightarrow>
             if uid = [] then ([GetUsers (TARGET_CHANNEL e)], Raises (TwitchUserNotFound (TARGET_CHANNEL e)))
             else (let acts = [GetUsers (TARGET_CHANNEL e), Print (ListeningForEvents (TARGET_CHANNEL e) uid),
                               EventSubStart, ListenRedemptions uid, ListenCheers uid,
                               Print EventSubConnected, AwaitFuture]
                   in if cancelled out
                      then (acts @ [Print Stopping, EventSubStop, WsServerClose, RunnerCleanup, TwitchClose],
                            Returns)
                      else (acts, Waits)))"

definition main :: "environ \<Rightarrow> int \<Rightarrow> outside \<Rightarrow> action list \<times> ending" where
  "main e LOCAL_WS_PORT out =
     (let acts1 = setup_servers LOCAL_WS_PORT
      in if BDS_RELAY_ONLY e
         then (let acts2 = acts1 @ [Print RelayOnlyEnabled, AwaitFuture]
               in if cancelled out
                  then (acts2 @ [Print Stopping, WsServerClose], Returns)
                  else (acts2, Waits))
         else (let acts2 = acts1 @ [Print ConnectingToTwitch]
               in if APP_ID e = [] \<or> APP_SECRET e = [] \<or> TARGET_CHANNEL e = []
                  then (acts2, Raises MissingTwitchConfiguration)
                  else (case load_tokens (tokens_json out) of
                          Inl err \<Rightarrow>
                            (acts2 @ [TwitchCreate (APP_ID e) (APP_SECRET e), LoadTokens], Raises err)
                        | Inr (token, refresh_token) \<Rightarrow>
                            (let acts3 = acts2 @ [TwitchCreate (APP_ID e) (APP_SECRET e), LoadTokens]
                                           @ authenticate_user out token refresh_token;
                                 (acts4, ending) = subscribe_and_wait e out
                             in (acts3 @ acts4, ending)))))"

section \<open>Runs of the server\<close>

text \<open>
  The event loop runs one piece of a coroutine at a time, up to its next \<^verbatim>\<open>await\<close>.
  A run is the list of what happens, in order: the websockets server starts
  \<^verbatim>\<open>ws_handler\<close> for a new connection; the \<^verbatim>\<open>wait_closed()\<close> of a handler returns and
  its \<^verbatim>\<open>finally\<close> block runs; Twitch delivers a redemption or a cheer, with the set of
  connections whose send fails. An exception ends only the handler that raised it, so
  a run goes on and collects the exceptions raised.
\<close>

datatype 'c event =
    Connect 'c
  | Closed 'c
  | Redemption "'c set" redemption
  | Cheer "'c set" cheer

fun step :: "'c event \<Rightarrow> 'c world \<Rightarrow> 'c world \<times> error option" where
  "step (Connect websocket) w = (ws_handler_enter websocket w, None)"
| "step (Closed websocket) w = ws_handler_finally websocket w"
| "step (Redemption failing ev) w = (on_redemption failing ev w, None)"
| "step (Cheer failing ev) w = (on_cheer failing ev w, None)"

fun run :: "'c event list \<Rightarrow> 'c world \<Rightarrow> 'c world \<times> error list" where
  "run [] w = (w, [])"
| "run (e # es) w =
     (let (w1, raised) = step e w;
          (w2, errors) = run es w1
      in (w2, (case raised of None \<Rightarrow> [] | Some err \<Rightarrow> [err]) @ errors))"


section \<open>Concrete scenarios\<close>

text \<open>
  Worlds with no overlay and with two overlays (connections 1 and 2) attached, the
  redemption of the reward \<^verbatim>\<open>Free Hug\<close> by \<^verbatim>\<open>alice\<close>, an environment that switches
  relay-only mode on and sets no credential, one that leaves relay-only mode off and
  lacks \<^verbatim>\<open>TWITCH_APP_SECRET\<close>, one with the three credentials, and an outside in which
  no tokens are saved and the wait is cancelled.
\<close>

definition no_overlays :: "nat world" where
  "no_overlays = \<lparr>connected_clients = {}, stdout = [], dumped = [], received = (\<lambda>client. [])\<rparr>"

definition two_overlays :: "nat world" where
  "two_overlays = \<lparr>connected_clients = {1, 2}, stdout = [], dumped = [], received = (\<lambda>client. [])\<rparr>"

definition free_hug :: redemption where
  "free_hug = \<lparr>reward_title = ''Free Hug'', user_name = ''alice''\<rparr>"

definition relay_environ :: environ where
  "relay_environ = [''BDS_RELAY_ONLY'' \<mapsto> '' True '']"

definition no_secret_environ :: environ where
  "no_secret_environ = [''TWITCH_APP_ID'' \<mapsto> ''abc'', ''TWITCH_TARGET_CHANNEL'' \<mapsto> ''pong'']"

definition calm_outside :: outside where
  "calm_outside = \<lparr>tokens_json = Missing, saved_tokens_accepted = False,
      authenticated = (PyStr ''tok'', PyStr ''ref''), users = [''42''], cancelled = True\<rparr>"

definition full_environ :: environ where
  "full_environ = [''TWITCH_APP_ID'' \<mapsto> ''abc'', ''TWITCH_APP_SECRET'' \<mapsto> ''s3cret'',
      ''TWITCH_TARGET_CHANNEL'' \<mapsto> ''pong'']"

section \<open>Basic facts\<close>

lemma send_tasks_simps:
  "connected_clients (send_tasks failing p w) = connected_clients w"
  "stdout (send_tasks failing p w) = stdout w"
  "dumped (send_tasks failing p w) = dumped w"
  "received (send_tasks failing p w) c =
     (if c \<in> connected_clients w \<and> c \<notin> failing then received w c @ [p] else received w c)"
  by (simp_all add: send_tasks_def)

text \<open>\<^verbatim>\<open>strip\<close> removes the white space around a text that starts and ends without any.\<close>

lemma dropWhile_all: "list_all P xs \<Longrightarrow> dropWhile P (xs @ ys) = dropWhile P ys"
  by (induction xs) auto

lemma py_strip_sandwich:
  assumes "list_all is_space pre" "list_all is_space post"
    and "core \<noteq> []" "\<not> is_space (hd core)" "\<not> is_space (last core)"
  shows "py_strip (pre @ core @ post) = core"
proof -
  from assms(3,5) have rear: "dropWhile is_space (rev core) = rev core"
    by (cases core rule: rev_cases) auto
  have "dropWhile is_space (pre @ core @ post) = core @ post"
    using assms(1,3,4) by (cases core) (auto simp: dropWhile_all)
  moreover have "dropWhile is_space (rev (core @ post)) = rev core"
    using assms(2) rear by (simp add: dropWhile_all list_all_iff)
  ultimately show ?thesis
    by (simp add: py_strip_def)
qed

lemma py_strip_spaces: "list_all is_space s \<Longrightarrow> py_strip s = []"
  by (auto simp: py_strip_def list_all_iff dest: set_dropWhileD)

lemma py_lower_length: "length (py_lower s) = length s"
  by (simp add: py_lower_def)

lemma flag_values:
  "py_lower (py_strip '' True '') = ''true''"
  "py_lower (py_strip ''ON'') = ''on''"
  "py_lower (py_strip ''yes'') = ''yes''"
  "py_lower (py_strip (CHR 0x09 # ''1'' @ [CHR 0x0A])) = ''1''"
  "py_lower (py_strip ''0'') = ''0''"
  "py_lower (py_strip ''t rue'') = ''t rue''"
  "py_lower (py_strip '''') = ''''"
  by code_simp+

lemma relay_environ_on: "BDS_RELAY_ONLY relay_environ"
  unfolding BDS_RELAY_ONLY_def relay_environ_def getenv_def by code_simp

lemma no_secret_environ_off: "\<not> BDS_RELAY_ONLY no_secret_environ"
  unfolding BDS_RELAY_ONLY_def no_secret_environ_def getenv_def by code_simp

text \<open>The texts \<^verbatim>\<open>json.dumps\<close> gives for the payloads of the two callbacks.\<close>

lemma redemption_text:
  \<open>json_dumps (redemption_payload ev) =
     ''{"reward": '' @ json_string (reward_title ev) @ '', "user": '' @ json_string (user_name ev) @ ''}''\<close>
  by (simp add: redemption_payload_def json_string_def escape_char_def)

lemma free_hug_text:
  \<open>json_dumps (redemption_payload free_hug) = ''{"reward": "Free Hug", "user": "alice"}''\<close>
  by (simp add: redemption_payload_def free_hug_def json_string_def escape_char_def)

lemma anonymous_cheer_text:
  \<open>json_dumps (cheer_payload \<lparr>bits = 10, cheer_user_name = None\<rparr>)
     = ''{"type": "cheer", "user": "Anonymous", "beans": 20, "showText": false}''\<close>
  by code_simp

lemma cheer_thresholds:
  "cheer_payload \<lparr>bits = 50, cheer_user_name = Some ''bob''\<rparr>
     = PyDict [(''type'', PyStr ''cheer''), (''user'', PyStr ''bob''),
               (''beans'', PyInt 100), (''showText'', PyBool False)]"
  "cheer_payload \<lparr>bits = 99, cheer_user_name = Some ''bob''\<rparr>
     = PyDict [(''type'', PyStr ''cheer''), (''user'', PyStr ''bob''),
               (''beans'', PyInt 198), (''showText'', PyBool False)]"
  "cheer_payload \<lparr>bits = 100, cheer_user_name = None\<rparr>
     = PyDict [(''type'', PyStr ''cheer''), (''user'', PyStr ''Anonymous''),
               (''beans'', PyInt 200), (''showText'', PyBool True)]"
  by (simp_all add: cheer_payload_def name_or_anonymous_def)

lemma cheer_empty_name:
  "cheer_payload \<lparr>bits = 50, cheer_user_name = Some ''''\<rparr>
     = PyDict [(''type'', PyStr ''cheer''), (''user'', PyStr ''Anonymous''),
               (''beans'', PyInt 100), (''showText'', PyBool False)]"
  by (simp add: cheer_payload_def name_or_anonymous_def)

text \<open>
  Two callbacks that run one after the other: a connection that is registered and
  whose sends succeed has both payloads, in the order of the callbacks.
\<close>

lemma callbacks_in_order:
  "c \<in> connected_clients w \<Longrightarrow> c \<notin> failing1 \<Longrightarrow> c \<notin> failing2 \<Longrightarrow>
     received (on_cheer failing2 cev (on_redemption failing1 ev w)) c
       = received w c @ [json_dumps (redemption_payload ev), json_dumps (cheer_payload cev)]
   \<and> received (on_redemption failing2 ev (on_cheer failing1 cev w)) c
       = received w c @ [json_dumps (cheer_payload cev), json_dumps (redemption_payload ev)]"
  by (auto simp: on_redemption_def on_cheer_def Let_def send_tasks_simps)

text \<open>
  Along a run of the server the registry is the set of connections whose handler
  waits, whatever sends fail, and no handler raises.
\<close>

lemma callbacks_keep_registry:
  "connected_clients (on_redemption failing ev w) = connected_clients w"
  "connected_clients (on_cheer failing cev w) = connected_clients w"
  by (simp_all add: on_redemption_def on_cheer_def Let_def send_tasks_def)


text \<open>A connection stays registered until its own handler is done waiting.\<close>

lemma registered_until_closed:
  "c \<in> connected_clients w \<Longrightarrow> Closed c \<notin> set evs \<Longrightarrow> c \<in> connected_clients (fst (run evs w))"
proof (induction evs arbitrary: w)
  case Nil
  then show ?case by simp
next
  case (Cons e es)
  from Cons.prems have later: "Closed c \<notin> set es" and now: "e \<noteq> Closed c"
    by auto
  have "c \<in> connected_clients (fst (step e w))"
  proof (cases e)
    case (Connect d)
    with Cons.prems(1) show ?thesis
      by (simp add: ws_handler_enter_def Let_def)
  next
    case (Closed d)
    with now have "d \<noteq> c" by simp
    with Cons.prems(1) Closed show ?thesis
      by (simp add: ws_handler_finally_def set_remove_def)
  next
    case (Redemption failing ev)
    with Cons.prems(1) show ?thesis
      by (simp add: callbacks_keep_registry)
  next
    case (Cheer failing cev)
    with Cons.prems(1) show ?thesis
      by (simp add: callbacks_keep_registry)
  qed
  from Cons.IH [OF this later] show ?case
    by (simp add: split_def Let_def)
qed


lemma ws_handler_finally_cases:
  "c \<in> connected_clients w \<Longrightarrow>
     ws_handler_finally c w
       = (w\<lparr>connected_clients := connected_clients w - {c},
            stdout := stdout w @ [OverlayDisconnected (card (connected_clients w - {c}))]\<rparr>, None)"
  "c \<notin> connected_clients w \<Longrightarrow> ws_handler_finally c w = (w, Some KeyError)"
  by (simp_all add: ws_handler_finally_def set_remove_def)

text \<open>
  A whole run of \<^verbatim>\<open>main\<close> with the three credentials set, no saved tokens and a
  cancellation at the end.
\<close>

lemma full_environ_off: "\<not> BDS_RELAY_ONLY full_environ"
  unfolding BDS_RELAY_ONLY_def full_environ_def getenv_def by code_simp

lemma full_run:
  "main full_environ 8765 calm_outside
     = ([Print (StartingRelay 8765), WebsocketsServe 8765, RunnerSetup, SiteStart 8080,
         Print ServingOverlay, Print ConnectingToTwitch, TwitchCreate ''abc'' ''s3cret'',
         LoadTokens, Print OpeningBrowser, Authenticate,
         SetUserAuthentication (PyStr ''tok'') (PyStr ''ref''),
         SaveTokens (PyStr ''tok'') (PyStr ''ref''), Print AuthenticationSuccessful,
         GetUsers ''pong'', Print (ListeningForEvents ''pong'' ''42''), EventSubStart,
         ListenRedemptions ''42'', ListenCheers ''42'', Print EventSubConnected, AwaitFuture,
         Print Stopping, EventSubStop, WsServerClose, RunnerCleanup, TwitchClose], Returns)"
  using full_environ_off
  by (simp add: main_def Let_def setup_servers_def APP_ID_def APP_SECRET_def TARGET_CHANNEL_def
        getenv_def load_tokens_def authenticate_user_def subscribe_and_wait_def calm_outside_def)
     (simp add: full_environ_def)

section \<open>The cheer payload\<close>

text \<open>
  C1. For every cheer event with bit count \<open>b\<close> and optional user name \<open>u\<close>, the
  payload that \<^verbatim>\<open>on_cheer\<close> serialises and sends to the registered connections is
  exactly the object \<^verbatim>\<open>{"type": "cheer", "user": u', "beans": 2*b, "showText": b >= 100}\<close>,
  where \<open>u'\<close> is \<open>u\<close> when a user name is present and \<^verbatim>\<open>"Anonymous"\<close> otherwise. A name
  is present when \<^verbatim>\<open>user_name\<close> is a true value: neither \<^verbatim>\<open>None\<close> nor the empty string.
\<close>

theorem cheer_payload_sent:
  \<open>connected_clients w \<noteq> {} \<Longrightarrow>
     dumped (on_cheer failing \<lparr>bits = b, cheer_user_name = u\<rparr> w)
       = dumped w @ [PyDict [(''type'', PyStr ''cheer''),
                             (''user'', PyStr (case u of None \<Rightarrow> ''Anonymous''
                                               | Some s \<Rightarrow> if s = [] then ''Anonymous'' else s)),
                             (''beans'', PyInt (2 * b)),
                             (''showText'', PyBool (100 \<le> b))]]
   \<and> (\<forall>client \<in> connected_clients w - failing.
         received (on_cheer failing \<lparr>bits = b, cheer_user_name = u\<rparr> w) client
           = received w client @
             [json_dumps (PyDict [(''type'', PyStr ''cheer''),
                             (''user'', PyStr (case u of None \<Rightarrow> ''Anonymous''
                                               | Some s \<Rightarrow> if s = [] then ''Anonymous'' else s)),
                             (''beans'', PyInt (2 * b)),
                             (''showText'', PyBool (100 \<le> b))])])\<close>
  by (simp add: on_cheer_def Let_def send_tasks_simps cheer_payload_def name_or_anonymous_def
        mult.commute)

theorem cheer_payload_sent_witness:
  \<open>connected_clients two_overlays \<noteq> {}
   \<and> dumped (on_cheer {} \<lparr>bits = 100, cheer_user_name = Some ''bob''\<rparr> two_overlays)
       = [PyDict [(''type'', PyStr ''cheer''), (''user'', PyStr ''bob''),
                  (''beans'', PyInt 200), (''showText'', PyBool True)]]
   \<and> received (on_cheer {} \<lparr>bits = 100, cheer_user_name = Some ''bob''\<rparr> two_overlays) 2
       = [json_dumps (PyDict [(''type'', PyStr ''cheer''), (''user'', PyStr ''bob''),
                  (''beans'', PyInt 200), (''showText'', PyBool True)])]\<close>
  using cheer_payload_sent [of two_overlays "{}" 100 "Some ''bob''"]
  by (simp add: two_overlays_def)

section \<open>A send that fails\<close>

text \<open>
  C2, as amended. In a broadcast over the registered connections in which the send to
  one connection fails, every registered connection whose send does not fail still
  receives the payload, and the one whose send failed receives nothing. The
  broadcast leaves the registry as it was: the failed connection is still registered
  when the callback returns and stays registered through whatever follows, until its
  own \<^verbatim>\<open>ws_handler\<close> leaves \<^verbatim>\<open>wait_closed()\<close>; the \<^verbatim>\<open>finally\<close> block of that handler
  then removes it and raises nothing.
\<close>

theorem send_failure_isolated:
  "failed \<in> connected_clients w \<Longrightarrow> failed \<in> failing \<Longrightarrow>
     (\<forall>client \<in> connected_clients w - failing.
        received (on_redemption failing ev w) client
          = received w client @ [json_dumps (redemption_payload ev)]
      \<and> received (on_cheer failing cev w) client
          = received w client @ [json_dumps (cheer_payload cev)])
   \<and> received (on_redemption failing ev w) failed = received w failed
   \<and> received (on_cheer failing cev w) failed = received w failed
   \<and> connected_clients (on_redemption failing ev w) = connected_clients w
   \<and> connected_clients (on_cheer failing cev w) = connected_clients w
   \<and> (Closed failed \<notin> set evs \<longrightarrow>
        failed \<in> connected_clients (fst (run evs (on_redemption failing ev w)))
        \<and> failed \<in> connected_clients (fst (run evs (on_cheer failing cev w))))
   \<and> ws_handler_finally failed (on_redemption failing ev w)
       = ((on_redemption failing ev w)
            \<lparr>connected_clients := connected_clients w - {failed},
             stdout := stdout (on_redemption failing ev w)
                         @ [OverlayDisconnected (card (connected_clients w - {failed}))]\<rparr>, None)
   \<and> ws_handler_finally failed (on_cheer failing cev w)
       = ((on_cheer failing cev w)
            \<lparr>connected_clients := connected_clients w - {failed},
             stdout := stdout (on_cheer failing cev w)
                         @ [OverlayDisconnected (card (connected_clients w - {failed}))]\<rparr>, None)"
proof -
  assume registered: "failed \<in> connected_clients w" and fails: "failed \<in> failing"
  have stays: "Closed failed \<notin> set evs \<longrightarrow>
        failed \<in> connected_clients (fst (run evs (on_redemption failing ev w)))
        \<and> failed \<in> connected_clients (fst (run evs (on_cheer failing cev w)))"
    using registered by (simp add: registered_until_closed callbacks_keep_registry)
  have sends: "(\<forall>client \<in> connected_clients w - failing.
        received (on_redemption failing ev w) client
          = received w client @ [json_dumps (redemption_payload ev)]
      \<and> received (on_cheer failing cev w) client
          = received w client @ [json_dumps (cheer_payload cev)])
   \<and> received (on_redemption failing ev w) failed = received w failed
   \<and> received (on_cheer failing cev w) failed = received w failed"
    using registered fails
    by (auto simp: on_redemption_def on_cheer_def Let_def send_tasks_simps)
  have leaves: "ws_handler_finally failed (on_redemption failing ev w)
       = ((on_redemption failing ev w)
            \<lparr>connected_clients := connected_clients w - {failed},
             stdout := stdout (on_redemption failing ev w)
                         @ [OverlayDisconnected (card (connected_clients w - {failed}))]\<rparr>, None)
   \<and> ws_handler_finally failed (on_cheer failing cev w)
       = ((on_cheer failing cev w)
            \<lparr>connected_clients := connected_clients w - {failed},
             stdout := stdout (on_cheer failing cev w)
                         @ [OverlayDisconnected (card (connected_clients w - {failed}))]\<rparr>, None)"
    using registered
    by (simp add: ws_handler_finally_def set_remove_def callbacks_keep_registry)
  have keeps: "connected_clients (on_redemption failing ev w) = connected_clients w
   \<and> connected_clients (on_cheer failing cev w) = connected_clients w"
    by (simp add: callbacks_keep_registry)
  from sends keeps stays leaves show ?thesis
    by blast
qed

theorem send_failure_isolated_witness:
  \<open>1 \<in> connected_clients two_overlays \<and> 1 \<in> {1::nat}
   \<and> received (on_redemption {1} free_hug two_overlays) 2
       = [''{"reward": "Free Hug", "user": "alice"}'']
   \<and> received (on_redemption {1} free_hug two_overlays) 1 = []
   \<and> connected_clients (on_redemption {1} free_hug two_overlays) = {1, 2}
   \<and> Closed (1::nat) \<notin> set [Cheer {1} \<lparr>bits = 10, cheer_user_name = None\<rparr>, Connect 3, Closed 2]
   \<and> 1 \<in> connected_clients (fst (run [Cheer {1} \<lparr>bits = 10, cheer_user_name = None\<rparr>, Connect 3, Closed 2]
              (on_redemption {1} free_hug two_overlays)))
   \<and> connected_clients (fst (ws_handler_finally 1 (on_redemption {1} free_hug two_overlays))) = {2}
   \<and> snd (ws_handler_finally 1 (on_redemption {1} free_hug two_overlays)) = None\<close>
proof -
  have registered: "1 \<in> connected_clients two_overlays"
    by (simp add: two_overlays_def)
  have fails: "1 \<in> {1::nat}"
    by simp
  have others: "2 \<in> connected_clients two_overlays - {1}"
    by (simp add: two_overlays_def)
  have rest: "connected_clients two_overlays - {1} = {2}" "connected_clients two_overlays = {1, 2}"
    by (auto simp: two_overlays_def)
  have quiet: "received two_overlays 1 = []" "received two_overlays 2 = []"
    by (simp_all add: two_overlays_def)
  have later: "Closed (1::nat) \<notin> set [Cheer {1} \<lparr>bits = 10, cheer_user_name = None\<rparr>, Connect 3, Closed (2::nat)]"
    by simp
  note inst = send_failure_isolated [OF registered fails, of free_hug "\<lparr>bits = 10, cheer_user_name = None\<rparr>"
      "[Cheer {1} \<lparr>bits = 10, cheer_user_name = None\<rparr>, Connect 3, Closed 2]"]
  have a: \<open>received (on_redemption {1} free_hug two_overlays) 2
       = [''{"reward": "Free Hug", "user": "alice"}'']\<close>
    using inst others free_hug_text quiet by simp
  have b: "received (on_redemption {1} free_hug two_overlays) 1 = []"
    using inst quiet by simp
  have c: "connected_clients (on_redemption {1} free_hug two_overlays) = {1, 2}"
    using inst rest by simp
  have d: "1 \<in> connected_clients (fst (run [Cheer {1} \<lparr>bits = 10, cheer_user_name = None\<rparr>, Connect 3, Closed 2]
              (on_redemption {1} free_hug two_overlays)))"
    using inst later by blast
  have e: "ws_handler_finally 1 (on_redemption {1} free_hug two_overlays)
       = ((on_redemption {1} free_hug two_overlays)
            \<lparr>connected_clients := connected_clients two_overlays - {1},
             stdout := stdout (on_redemption {1} free_hug two_overlays)
                         @ [OverlayDisconnected (card (connected_clients two_overlays - {1}))]\<rparr>, None)"
    using inst by blast
  have f: "connected_clients (fst (ws_handler_finally 1 (on_redemption {1} free_hug two_overlays))) = {2}"
    "snd (ws_handler_finally 1 (on_redemption {1} free_hug two_overlays)) = None"
    unfolding e by (simp_all add: rest)
  from registered fails a b c later d f show ?thesis
    by (simp only: simp_thms)
qed

text \<open>
  C2 as written has the failed connection absent from the registry afterwards. With
  connections 1 and 2 registered and the send to 1 failing, connection 2 receives the
  payload and connection 1 is still registered when the broadcast is over; it is
  still there after a second broadcast whose send to it fails again.
\<close>

theorem failed_send_stays_registered:
  \<open>connected_clients two_overlays = {1, 2}
   \<and> received (on_redemption {1} free_hug two_overlays) 1 = []
   \<and> received (on_redemption {1} free_hug two_overlays) 2
       = [''{"reward": "Free Hug", "user": "alice"}'']
   \<and> 1 \<in> connected_clients (on_redemption {1} free_hug two_overlays)
   \<and> 1 \<in> connected_clients (on_redemption {1} free_hug (on_redemption {1} free_hug two_overlays))\<close>
  by (simp add: on_redemption_def Let_def send_tasks_simps two_overlays_def free_hug_def
        redemption_payload_def json_string_def escape_char_def)

section \<open>Startup without credentials\<close>

text \<open>
  C3, as amended. Whenever relay-only mode is off and one of \<^verbatim>\<open>TWITCH_APP_ID\<close>,
  \<^verbatim>\<open>TWITCH_APP_SECRET\<close>, \<^verbatim>\<open>TWITCH_TARGET_CHANNEL\<close> is unset or empty, \<^verbatim>\<open>main\<close> raises
  the configuration error after it has bound the websocket listener and the HTTP
  site and before any step towards Twitch; \<^verbatim>\<open>main\<close> closes neither endpoint on this
  path.
\<close>

theorem missing_config_raises:
  "\<not> BDS_RELAY_ONLY e \<Longrightarrow> APP_ID e = [] \<or> APP_SECRET e = [] \<or> TARGET_CHANNEL e = [] \<Longrightarrow>
     main e port out
       = ([Print (StartingRelay port), WebsocketsServe port, RunnerSetup, SiteStart 8080,
           Print ServingOverlay, Print ConnectingToTwitch], Raises MissingTwitchConfiguration)
   \<and> (\<forall>a \<in> set (fst (main e port out)). \<not> upstream a)
   \<and> WsServerClose \<notin> set (fst (main e port out))
   \<and> RunnerCleanup \<notin> set (fst (main e port out))"
  by (simp add: main_def Let_def setup_servers_def)

theorem missing_config_raises_witness:
  "\<not> BDS_RELAY_ONLY no_secret_environ
   \<and> (APP_ID no_secret_environ = [] \<or> APP_SECRET no_secret_environ = []
        \<or> TARGET_CHANNEL no_secret_environ = [])
   \<and> snd (main no_secret_environ 8765 calm_outside) = Raises MissingTwitchConfiguration
   \<and> WebsocketsServe 8765 \<in> set (fst (main no_secret_environ 8765 calm_outside))"
proof -
  have off: "\<not> BDS_RELAY_ONLY no_secret_environ"
    by (rule no_secret_environ_off)
  have missing: "APP_ID no_secret_environ = [] \<or> APP_SECRET no_secret_environ = []
      \<or> TARGET_CHANNEL no_secret_environ = []"
    by (simp add: APP_SECRET_def getenv_def no_secret_environ_def)
  from missing_config_raises [OF off missing, of 8765 calm_outside] off missing
  show ?thesis by simp
qed

text \<open>
  C3 as written has the failure come before any listening endpoint is bound. With
  relay-only mode off and no \<^verbatim>\<open>TWITCH_APP_SECRET\<close>, the second thing \<^verbatim>\<open>main\<close> does is to
  bind the websocket listener on port 8765, the fourth to start the HTTP site; the
  error is raised after both.
\<close>

theorem missing_config_after_bind:
  "\<not> BDS_RELAY_ONLY no_secret_environ \<and> APP_SECRET no_secret_environ = ''''
   \<and> main no_secret_environ 8765 calm_outside
       = ([Print (StartingRelay 8765), WebsocketsServe 8765, RunnerSetup, SiteStart 8080,
           Print ServingOverlay, Print ConnectingToTwitch], Raises MissingTwitchConfiguration)
   \<and> binds_listener (fst (main no_secret_environ 8765 calm_outside) ! 1)
   \<and> binds_listener (fst (main no_secret_environ 8765 calm_outside) ! 3)"
  using no_secret_environ_off
  by (simp add: main_def Let_def setup_servers_def APP_SECRET_def getenv_def)
     (simp add: no_secret_environ_def)

section \<open>Leaving the registry\<close>



section \<open>No overlay attached\<close>

text \<open>
  C5. For every event, if no connection is registered when the callback runs, the
  callback prints its line and does nothing else: it makes no \<^verbatim>\<open>json.dumps\<close> call, so
  the payload is never computed, and it sends nothing. (\<^verbatim>\<open>on_cheer\<close> has by then
  worked out the bean count and the text flag, two plain values.)
\<close>

theorem empty_registry_skips_broadcast:
  "connected_clients w = {} \<Longrightarrow>
     on_redemption failing ev w
       = w\<lparr>stdout := stdout w @ [RedemptionReceived (reward_title ev) (user_name ev)]\<rparr>
   \<and> on_cheer failing cev w
       = w\<lparr>stdout := stdout w @ [CheerReceived (bits cev) (name_or_anonymous (cheer_user_name cev))]\<rparr>
   \<and> dumped (on_redemption failing ev w) = dumped w
   \<and> dumped (on_cheer failing cev w) = dumped w
   \<and> received (on_redemption failing ev w) = received w
   \<and> received (on_cheer failing cev w) = received w"
  by (simp add: on_redemption_def on_cheer_def Let_def)

theorem empty_registry_skips_broadcast_witness:
  "connected_clients no_overlays = {}
   \<and> dumped (on_redemption {} free_hug no_overlays) = []
   \<and> dumped (on_cheer {} \<lparr>bits = 10, cheer_user_name = None\<rparr> no_overlays) = []
   \<and> stdout (on_redemption {} free_hug no_overlays) = [RedemptionReceived ''Free Hug'' ''alice'']
   \<and> received (on_cheer {} \<lparr>bits = 10, cheer_user_name = None\<rparr> no_overlays) 1 = []"
  using empty_registry_skips_broadcast [of no_overlays "{}" free_hug "\<lparr>bits = 10, cheer_user_name = None\<rparr>"]
  by (simp add: no_overlays_def free_hug_def)

section \<open>The redemption payload\<close>

text \<open>
  C6. For every redemption event with reward title \<open>r\<close> and user name \<open>u\<close>, the payload
  that \<^verbatim>\<open>on_redemption\<close> serialises and sends to the registered connections is exactly
  the object \<^verbatim>\<open>{"reward": r, "user": u}\<close>, whose text is given, and it has no
  \<^verbatim>\<open>"type"\<close> key.
\<close>

theorem redemption_payload_sent:
  \<open>connected_clients w \<noteq> {} \<Longrightarrow>
     dumped (on_redemption failing \<lparr>reward_title = r, user_name = u\<rparr> w)
       = dumped w @ [PyDict [(''reward'', PyStr r), (''user'', PyStr u)]]
   \<and> (\<forall>client \<in> connected_clients w - failing.
         received (on_redemption failing \<lparr>reward_title = r, user_name = u\<rparr> w) client
           = received w client @ [json_dumps (PyDict [(''reward'', PyStr r), (''user'', PyStr u)])])
   \<and> json_dumps (PyDict [(''reward'', PyStr r), (''user'', PyStr u)])
        = ''{"reward": '' @ json_string r @ '', "user": '' @ json_string u @ ''}''
   \<and> ''type'' \<notin> fst ` set [(''reward'', PyStr r), (''user'', PyStr u)]\<close>
  by (simp add: on_redemption_def Let_def send_tasks_simps redemption_payload_def json_string_def
        escape_char_def)

theorem redemption_payload_sent_witness:
  \<open>connected_clients two_overlays \<noteq> {}
   \<and> dumped (on_redemption {} free_hug two_overlays)
       = [PyDict [(''reward'', PyStr ''Free Hug''), (''user'', PyStr ''alice'')]]
   \<and> received (on_redemption {} free_hug two_overlays) 1 = [''{"reward": "Free Hug", "user": "alice"}'']
   \<and> received (on_redemption {} free_hug two_overlays) 2 = [''{"reward": "Free Hug", "user": "alice"}'']\<close>
  using redemption_payload_sent [of two_overlays "{}" "''Free Hug''" "''alice''"]
  by (simp add: two_overlays_def free_hug_def json_string_def escape_char_def)

section \<open>Relay-only mode\<close>

text \<open>
  C8. Whenever relay-only mode is configured, whatever the credentials, \<^verbatim>\<open>main\<close> binds
  the websocket listener and the HTTP site and then waits; it raises nothing; when the
  wait is cancelled it closes the websocket listener and returns. No step towards
  Twitch, and no read of the token file, is in the run, neither before the wait nor
  after it.
\<close>

theorem relay_only_run:
  "BDS_RELAY_ONLY e \<Longrightarrow>
     main e port out
       = ([Print (StartingRelay port), WebsocketsServe port, RunnerSetup, SiteStart 8080,
           Print ServingOverlay, Print RelayOnlyEnabled, AwaitFuture]
          @ (if cancelled out then [Print Stopping, WsServerClose] else []),
          if cancelled out then Returns else Waits)
   \<and> (\<forall>a \<in> set (fst (main e port out)). \<not> upstream a)
   \<and> LoadTokens \<notin> set (fst (main e port out))
   \<and> (\<forall>err. snd (main e port out) \<noteq> Raises err)"
  by (simp add: main_def Let_def setup_servers_def)

theorem relay_only_run_witness:
  "BDS_RELAY_ONLY relay_environ
   \<and> APP_ID relay_environ = [] \<and> APP_SECRET relay_environ = [] \<and> TARGET_CHANNEL relay_environ = []
   \<and> main relay_environ 8765 calm_outside
       = ([Print (StartingRelay 8765), WebsocketsServe 8765, RunnerSetup, SiteStart 8080,
           Print ServingOverlay, Print RelayOnlyEnabled, AwaitFuture, Print Stopping, WsServerClose],
          Returns)
   \<and> main relay_environ 8765 (calm_outside\<lparr>cancelled := False\<rparr>)
       = ([Print (StartingRelay 8765), WebsocketsServe 8765, RunnerSetup, SiteStart 8080,
           Print ServingOverlay, Print RelayOnlyEnabled, AwaitFuture], Waits)"
  using relay_only_run [OF relay_environ_on, of 8765 calm_outside]
        relay_only_run [OF relay_environ_on, of 8765 "calm_outside\<lparr>cancelled := False\<rparr>"]
        relay_environ_on
  by (simp add: calm_outside_def APP_ID_def APP_SECRET_def TARGET_CHANNEL_def getenv_def
        relay_environ_def)

section \<open>Loading the saved tokens\<close>

text \<open>
  C9. \<^verbatim>\<open>load_tokens\<close> raises in no state of the token file: it returns the pair
  \<^verbatim>\<open>(None, None)\<close> when the file is absent, cannot be read, or holds malformed JSON (or
  JSON that is not an object), and when the file holds an object it returns the
  values of its keys \<^verbatim>\<open>token\<close> and \<^verbatim>\<open>refresh_token\<close>, \<^verbatim>\<open>None\<close> for a key that is missing.
\<close>

theorem load_tokens_never_raises:
  "load_tokens Missing = Inr (PyNone, PyNone)
   \<and> load_tokens Unreadable = Inr (PyNone, PyNone)
   \<and> load_tokens Malformed = Inr (PyNone, PyNone)
   \<and> load_tokens (Loaded (PyDict kvs))
       = Inr (case map_of kvs ''token'' of None \<Rightarrow> PyNone | Some v \<Rightarrow> v,
              case map_of kvs ''refresh_token'' of None \<Rightarrow> PyNone | Some v \<Rightarrow> v)
   \<and> load_tokens (Loaded PyNone) = Inr (PyNone, PyNone)
   \<and> load_tokens (Loaded (PyBool flag)) = Inr (PyNone, PyNone)
   \<and> load_tokens (Loaded (PyInt i)) = Inr (PyNone, PyNone)
   \<and> load_tokens (Loaded (PyStr s)) = Inr (PyNone, PyNone)
   \<and> load_tokens (Loaded (PyList xs)) = Inr (PyNone, PyNone)
   \<and> (\<exists>token refresh_token. load_tokens f = Inr (token, refresh_token))"
proof -
  have total: "\<exists>token refresh_token. load_tokens f = Inr (token, refresh_token)"
  proof (cases f)
    case (Loaded data)
    then show ?thesis
      by (cases data) (simp_all add: load_tokens_def load_tokens_try_def)
  qed (simp_all add: load_tokens_def load_tokens_try_def)
  then show ?thesis
    by (simp add: load_tokens_def load_tokens_try_def)
qed

section \<open>The boolean flags\<close>

text \<open>
  C10. \<^verbatim>\<open>BDS_RELAY_ONLY\<close> and \<^verbatim>\<open>BDS_DEBUG\<close> are true if and only if their environment
  variable is set and its value, stripped of the white space around it and put in
  lower case, is one of \<^verbatim>\<open>1\<close>, \<^verbatim>\<open>true\<close>, \<^verbatim>\<open>yes\<close>, \<^verbatim>\<open>on\<close>; an unset variable, an empty
  value and every other value give false.
\<close>

theorem flags_enabled_iff:
  "BDS_RELAY_ONLY e =
     (\<exists>v. e ''BDS_RELAY_ONLY'' = Some v \<and> py_lower (py_strip v) \<in> {''1'', ''true'', ''yes'', ''on''})
   \<and> BDS_DEBUG e =
     (\<exists>v. e ''BDS_DEBUG'' = Some v \<and> py_lower (py_strip v) \<in> {''1'', ''true'', ''yes'', ''on''})
   \<and> \<not> BDS_RELAY_ONLY Map.empty \<and> \<not> BDS_DEBUG Map.empty
   \<and> \<not> BDS_RELAY_ONLY [''BDS_RELAY_ONLY'' \<mapsto> ''''] \<and> \<not> BDS_DEBUG [''BDS_DEBUG'' \<mapsto> '''']"
  by (auto simp: BDS_RELAY_ONLY_def BDS_DEBUG_def getenv_def py_strip_def py_lower_def
        split: option.splits)

end
